theory Spec2Isabelle
  imports Complex_Main "HOL-Library.AList"
begin

section \<open>JavaScript values\<close>

text \<open>
  The SDK is TypeScript, and most of what it handles is typed \<open>any\<close>: the error bodies a
  server sends, the values \<open>fetch\<close> rejects with, the payloads. They are modelled by a
  datatype of JavaScript values. A number is a finite IEEE double, taken as an exact
  rational, or \<open>NaN\<close> (which matters because it is falsy); the infinities are left out.
  An object is the list of its own properties in insertion order, with distinct keys.
\<close>

datatype number = Num rat | NaN

datatype jsval =
    JUndefined
  | JNull
  | JBool bool
  | JNum number
  | JStr string
  | JArr "jsval list"
  | JObj "(string \<times> jsval) list"

text \<open>Truthiness, as \<open>!x\<close>, \<open>x || y\<close> and \<open>x && y\<close> read it.\<close>

fun truthy_number :: "number \<Rightarrow> bool" where
  "truthy_number (Num q) = (q \<noteq> 0)"
| "truthy_number NaN = False"

fun truthy :: "jsval \<Rightarrow> bool" where
  "truthy JUndefined = False"
| "truthy JNull = False"
| "truthy (JBool b) = b"
| "truthy (JNum n) = truthy_number n"
| "truthy (JStr s) = (s \<noteq> [])"
| "truthy (JArr _) = True"
| "truthy (JObj _) = True"

definition js_or :: "jsval \<Rightarrow> jsval \<Rightarrow> jsval" where
  "js_or a b = (if truthy a then a else b)"

text \<open>The comparison \<open>a < b\<close> and the difference \<open>a - b\<close> of two numbers.\<close>

fun num_less :: "number \<Rightarrow> number \<Rightarrow> bool" where
  "num_less (Num a) (Num b) = (a < b)"
| "num_less _ _ = False"

fun num_minus :: "number \<Rightarrow> number \<Rightarrow> number" where
  "num_minus (Num a) (Num b) = Num (a - b)"
| "num_minus _ _ = NaN"

text \<open>
  Reading a property \<open>e.k\<close>. On \<open>undefined\<close> and \<open>null\<close> the read throws a TypeError; on
  an object it gives the own property or \<open>undefined\<close>. The source reads the properties
  \<open>name\<close>, \<open>statusCode\<close>, \<open>message\<close>, \<open>details\<close>, \<open>exists\<close>, \<open>totalEntries\<close> and
  \<open>count\<close> only, which no primitive and no array has.
\<close>

definition type_error :: "string \<Rightarrow> jsval" where
  "type_error msg = JObj [(''name'', JStr ''TypeError''), (''message'', JStr msg)]"

definition js_error :: "string \<Rightarrow> jsval" where
  \<comment> \<open>\<open>new Error(msg)\<close>\<close>
  "js_error msg = JObj [(''name'', JStr ''Error''), (''message'', JStr msg)]"

fun get_prop :: "jsval \<Rightarrow> string \<Rightarrow> jsval + jsval" where
  "get_prop JUndefined k = Inl (type_error (''Cannot read properties of undefined (reading '' @ k @ '')''))"
| "get_prop JNull k = Inl (type_error (''Cannot read properties of null (reading '' @ k @ '')''))"
| "get_prop (JObj ps) k = Inr (case map_of ps k of None \<Rightarrow> JUndefined | Some v \<Rightarrow> v)"
| "get_prop _ k = Inr JUndefined"

text \<open>Decimal digits of a natural number, as a template literal prints it.\<close>

fun show_nat :: "nat \<Rightarrow> string" where
  "show_nat n =
     (if n < 10 then [char_of (48 + n)]
      else show_nat (n div 10) @ [char_of (48 + n mod 10)])"

declare show_nat.simps [simp del]

text \<open>
  Object spread \<open>{...base, ...v}\<close>: the own enumerable properties of \<open>v\<close> are written over
  \<open>base\<close> in order; a key already there keeps its place and takes the new value, a new key
  goes to the end. \<open>undefined\<close>, \<open>null\<close>, booleans and numbers have none; a string and an
  array have their indices.
\<close>

fun own_props :: "jsval \<Rightarrow> (string \<times> jsval) list" where
  "own_props (JObj ps) = ps"
| "own_props (JStr s) = zip (map show_nat [0..<length s]) (map (\<lambda>c. JStr [c]) s)"
| "own_props (JArr vs) = zip (map show_nat [0..<length vs]) vs"
| "own_props _ = []"

definition spread :: "(string \<times> jsval) list \<Rightarrow> jsval \<Rightarrow> (string \<times> jsval) list" where
  "spread base v = fold (\<lambda>(k, x). AList.update k x) (own_props v) base"

section \<open>Configuration\<close>

text \<open>
  \<open>WaitlyConfig\<close> is what the caller passes: every field may be absent (\<open>None\<close>); the type
  asks for \<open>waitlistId\<close> and \<open>apiKey\<close> but the constructor checks them at run time. The
  resolved configuration, \<open>Required<WaitlyConfig>\<close>, has every field.
\<close>

record WaitlyConfig =
  waitlistId :: "string option"
  apiKey :: "string option"
  apiUrl :: "string option"
  timeout :: "number option"
  retryAttempts :: "number option"
  headers :: "(string \<rightharpoonup> string) option"

record RequiredConfig =
  cfg_waitlistId :: string
  cfg_apiKey :: string
  cfg_apiUrl :: string
  cfg_timeout :: number
  cfg_retryAttempts :: number
  cfg_headers :: "string \<rightharpoonup> string"

text \<open>\<open>x || d\<close> on an optional string and on an optional number: absent and falsy give \<open>d\<close>.\<close>

fun str_or :: "string option \<Rightarrow> string \<Rightarrow> string" where
  "str_or None d = d"
| "str_or (Some s) d = (if s \<noteq> [] then s else d)"

fun num_or :: "number option \<Rightarrow> number \<Rightarrow> number" where
  "num_or None d = d"
| "num_or (Some n) d = (if truthy_number n then n else d)"

fun headers_or :: "(string \<rightharpoonup> string) option \<Rightarrow> (string \<rightharpoonup> string) \<Rightarrow> (string \<rightharpoonup> string)" where
  "headers_or None d = d"
| "headers_or (Some h) d = h"

section \<open>The client and what it does to its environment\<close>

text \<open>
  The client object has two fields, the resolved configuration and the map of abort
  controllers by request id (a JavaScript \<open>Map\<close>: an association list in insertion
  order). The third field of the record is a ghost: the calls the client has made to its
  environment, in order. The timer armed by \<open>setTimeout\<close> and a call of
  \<open>cancelAllRequests\<close> reach a running request only through \<open>fetch\<close>, which then rejects
  with an \<open>AbortError\<close>.
\<close>

datatype AbortController = NewAbortController

record RequestInit =
  opt_method :: string
  opt_headers :: "string \<rightharpoonup> string"
  opt_body :: "jsval option"

datatype event =
    SetTimeout number
  | ClearTimeout
  | Fetch string RequestInit
  | Delay nat
  | Abort string

record WaitlyClient =
  config :: RequiredConfig
  abortControllers :: "(string \<times> AbortController) list"
  trace :: "event list"

fun is_fetch :: "event \<Rightarrow> bool" where
  "is_fetch (Fetch _ _) = True"
| "is_fetch _ = False"

fun fetch_options :: "event list \<Rightarrow> RequestInit list" where
  "fetch_options [] = []"
| "fetch_options (Fetch url options # es) = options # fetch_options es"
| "fetch_options (e # es) = fetch_options es"

fun delay_times :: "event list \<Rightarrow> nat list" where
  "delay_times [] = []"
| "delay_times (Delay ms # es) = ms # delay_times es"
| "delay_times (e # es) = delay_times es"

definition fetch_count :: "WaitlyClient \<Rightarrow> nat" where
  "fetch_count c = length (filter is_fetch (trace c))"

definition delays :: "WaitlyClient \<Rightarrow> nat list" where
  "delays c = delay_times (trace c)"

definition fetches_since :: "WaitlyClient \<Rightarrow> WaitlyClient \<Rightarrow> RequestInit list" where
  \<comment> \<open>the options of the calls of \<open>fetch\<close> made between two states of the client\<close>
  "fetches_since c c' = fetch_options (drop (length (trace c)) (trace c'))"

definition constructor :: "WaitlyConfig \<Rightarrow> jsval + WaitlyClient" where
  "constructor cfg =
     (case waitlistId cfg of
        None \<Rightarrow> Inl (js_error ''waitlistId is required'')
      | Some w \<Rightarrow>
          if w = [] then Inl (js_error ''waitlistId is required'')
          else (case apiKey cfg of
              None \<Rightarrow> Inl (js_error ''apiKey is required'')
            | Some k \<Rightarrow>
                if k = [] then Inl (js_error ''apiKey is required'')
                else Inr \<lparr>
                  config = \<lparr>
                    cfg_waitlistId = w,
                    cfg_apiKey = k,
                    cfg_apiUrl = str_or (apiUrl cfg) ''https://www.gowaitly.com'',
                    cfg_timeout = num_or (timeout cfg) (Num 10000),
                    cfg_retryAttempts = num_or (retryAttempts cfg) (Num 3),
                    cfg_headers = headers_or (headers cfg) Map.empty \<rparr>,
                  abortControllers = [],
                  trace = [] \<rparr>))"

definition createWaitlyClient :: "WaitlyConfig \<Rightarrow> jsval + WaitlyClient" where
  "createWaitlyClient cfg = constructor cfg"

section \<open>Email validation\<close>

text \<open>
  \<open>isValidEmail\<close> tests the email against the regular expression
  \<^verbatim>\<open>/^[^\s@]+@[^\s@]+\.[^\s@]+$/\<close>. The expression is anchored at both ends and has no
  back-reference, so \<open>test\<close> decides whether the whole string is in its language; the
  model decides it with derivatives. Characters are 8-bit: of those \<^verbatim>\<open>\s\<close> matches, the
  tab, line feed, vertical tab, form feed, carriage return, space and no-break space.
\<close>

datatype regex =
    Nothing
  | Eps
  | Cls "char \<Rightarrow> bool"
  | Alt regex regex
  | Seq regex regex
  | Star regex

definition Plus :: "regex \<Rightarrow> regex" where
  "Plus r = Seq r (Star r)"

fun nullable :: "regex \<Rightarrow> bool" where
  "nullable Nothing = False"
| "nullable Eps = True"
| "nullable (Cls p) = False"
| "nullable (Alt r s) = (nullable r \<or> nullable s)"
| "nullable (Seq r s) = (nullable r \<and> nullable s)"
| "nullable (Star r) = True"

fun deriv :: "char \<Rightarrow> regex \<Rightarrow> regex" where
  "deriv c Nothing = Nothing"
| "deriv c Eps = Nothing"
| "deriv c (Cls p) = (if p c then Eps else Nothing)"
| "deriv c (Alt r s) = Alt (deriv c r) (deriv c s)"
| "deriv c (Seq r s) =
     (if nullable r then Alt (Seq (deriv c r) s) (deriv c s) else Seq (deriv c r) s)"
| "deriv c (Star r) = Seq (deriv c r) (Star r)"

definition regex_test :: "regex \<Rightarrow> string \<Rightarrow> bool" where
  "regex_test r s = nullable (fold deriv s r)"

definition is_space :: "char \<Rightarrow> bool" where
  "is_space c = (of_char c \<in> {9, 10, 11, 12, 13, 32, 160 :: nat})"

definition not_space_at :: "char \<Rightarrow> bool" where
  \<comment> \<open>the class \<^verbatim>\<open>[^\s@]\<close>\<close>
  "not_space_at c = (\<not> is_space c \<and> c \<noteq> CHR ''@'')"

definition emailRegex :: regex where
  "emailRegex =
     Seq (Plus (Cls not_space_at))
       (Seq (Cls (\<lambda>c. c = CHR ''@''))
         (Seq (Plus (Cls not_space_at))
           (Seq (Cls (\<lambda>c. c = CHR ''.''))
             (Plus (Cls not_space_at)))))"

definition isValidEmail :: "string \<Rightarrow> bool" where
  "isValidEmail email = regex_test emailRegex email"

text \<open>\<open>toLowerCase\<close> and \<open>trim\<close> on 8-bit characters.\<close>

definition to_lower_char :: "char \<Rightarrow> char" where
  "to_lower_char c =
     (let n = (of_char c :: nat)
      in if (65 \<le> n \<and> n \<le> 90) \<or> (192 \<le> n \<and> n \<le> 222 \<and> n \<noteq> 215)
         then char_of (n + 32) else c)"

definition toLowerCase :: "string \<Rightarrow> string" where
  "toLowerCase s = map to_lower_char s"

definition trim :: "string \<Rightarrow> string" where
  "trim s = rev (dropWhile is_space (rev (dropWhile is_space s)))"

section \<open>The request executor\<close>

text \<open>
  What \<open>fetch\<close> gives back. A response has its status, its status text and a body that
  \<open>json()\<close> reads: \<open>json_first\<close> is what the first call of \<open>json()\<close> on the response
  settles with, \<open>json_second\<close> what a second call on the same response settles with
  (\<open>Inr\<close> a parsed value, \<open>Inl\<close> the value it rejects with). The source never reads a
  response more than twice. \<open>ok\<close> is the Fetch standard's: a status from 200 to 299.
\<close>

record Response =
  status :: nat
  statusText :: string
  json_first :: "jsval + jsval"
  json_second :: "jsval + jsval"

definition ok :: "Response \<Rightarrow> bool" where
  "ok r = (200 \<le> status r \<and> status r \<le> 299)"

datatype fetch_outcome = Responds Response | Rejects jsval

text \<open>
  One pass through the body of the retry loop ends in one of three ways: the function
  returns, a value is thrown out of the function, or the loop goes on to the next attempt
  with a new \<open>lastError\<close> (by \<open>continue\<close>, or by running off the end of the \<open>catch\<close>
  block).
\<close>

datatype control = Returned jsval | Thrown jsval | Next jsval

definition backoff :: "nat \<Rightarrow> nat" where
  \<comment> \<open>\<open>Math.pow(2, attempt) * 1000\<close>, in milliseconds\<close>
  "backoff attempt = 2 ^ attempt * 1000"

definition attempts_remain :: "RequiredConfig \<Rightarrow> nat \<Rightarrow> bool" where
  \<comment> \<open>\<open>attempt < this.config.retryAttempts - 1\<close>\<close>
  "attempts_remain cfg attempt =
     num_less (Num (of_nat attempt)) (num_minus (cfg_retryAttempts cfg) (Num 1))"

definition settle :: "string \<Rightarrow> WaitlyClient \<Rightarrow> WaitlyClient" where
  \<comment> \<open>\<open>clearTimeout(timeoutId); this.abortControllers.delete(requestId)\<close>\<close>
  "settle requestId c =
     c\<lparr> abortControllers := AList.delete requestId (abortControllers c),
        trace := trace c @ [ClearTimeout] \<rparr>"

definition sleep :: "nat \<Rightarrow> WaitlyClient \<Rightarrow> WaitlyClient" where
  \<comment> \<open>\<open>await this.delay(ms)\<close>\<close>
  "sleep ms c = c\<lparr> trace := trace c @ [Delay ms] \<rparr>"

text \<open>The \<open>catch\<close> block of the loop body, entered with the value thrown in the \<open>try\<close>.\<close>

definition catch_block ::
  "RequiredConfig \<Rightarrow> string \<Rightarrow> nat \<Rightarrow> jsval \<Rightarrow> WaitlyClient \<Rightarrow> control \<times> WaitlyClient" where
  "catch_block cfg requestId attempt error c =
     (let c1 = settle requestId c
      in case get_prop error ''name'' of
           Inl te \<Rightarrow> (Thrown te, c1)
         | Inr n \<Rightarrow>
             if n = JStr ''AbortError'' then (Thrown (js_error ''Request timeout''), c1)
             else if attempts_remain cfg attempt then
               (case get_prop error ''statusCode'' of
                  Inl te \<Rightarrow> (Thrown te, c1)
                | Inr sc \<Rightarrow>
                    if \<not> truthy sc then (Next error, sleep (backoff attempt) c1)
                    else (Next error, c1))
             else (Next error, c1))"

text \<open>The last two lines of the \<open>try\<close> block: read the body and return it.\<close>

definition return_json ::
  "RequiredConfig \<Rightarrow> string \<Rightarrow> nat \<Rightarrow> jsval + jsval \<Rightarrow> WaitlyClient \<Rightarrow> control \<times> WaitlyClient" where
  "return_json cfg requestId attempt read c =
     (case read of
        Inr data \<Rightarrow> (Returned data, c)
      | Inl e \<Rightarrow> catch_block cfg requestId attempt e c)"

definition error_body :: "Response \<Rightarrow> jsval" where
  \<comment> \<open>\<open>await response.json().catch(() => ({ message: `HTTP ${status}: ${statusText}` }))\<close>\<close>
  "error_body r =
     (case json_first r of
        Inr v \<Rightarrow> v
      | Inl _ \<Rightarrow> JObj [(''message'',
                 JStr (''HTTP '' @ show_nat (status r) @ '': '' @ statusText r))])"

definition with_status :: "Response \<Rightarrow> jsval" where
  \<comment> \<open>\<open>{ statusCode: response.status, ...error }\<close>\<close>
  "with_status r =
     JObj (spread [(''statusCode'', JNum (Num (of_nat (status r))))] (error_body r))"

definition iteration ::
  "RequiredConfig \<Rightarrow> string \<Rightarrow> string \<Rightarrow> RequestInit \<Rightarrow> nat \<Rightarrow> fetch_outcome \<Rightarrow>
     WaitlyClient \<Rightarrow> control \<times> WaitlyClient" where
  "iteration cfg requestId url options attempt outcome c =
     (let c1 = c\<lparr> trace := trace c @ [Fetch url options] \<rparr>
      in case outcome of
           Rejects e \<Rightarrow> catch_block cfg requestId attempt e c1
         | Responds response \<Rightarrow>
             (let c2 = settle requestId c1
              in if \<not> ok response then
                   (if 400 \<le> status response \<and> status response < 500
                    then catch_block cfg requestId attempt (with_status response) c2
                    else if attempts_remain cfg attempt
                      then (Next (with_status response), sleep (backoff attempt) c2)
                      else return_json cfg requestId attempt (json_second response) c2)
                 else return_json cfg requestId attempt (json_first response) c2))"

text \<open>
  The loop \<open>for (let attempt = 0; attempt < this.config.retryAttempts; attempt++)\<close> and
  the \<open>throw lastError\<close> after it. \<open>transport attempt\<close> is what the call of \<open>fetch\<close> of
  that attempt settles with (every attempt calls \<open>fetch\<close> once, with the same arguments).
  The number of attempts is finite, so the loop ends. On the path of a failed last attempt
  that is not a client error the source assigns \<open>lastError\<close> and falls through to the
  second read, which either returns or enters the \<open>catch\<close> block, where \<open>lastError\<close> is
  assigned again: the first assignment is dead and \<open>iteration\<close> leaves it out.
\<close>

fun attempts_left :: "number \<Rightarrow> nat \<Rightarrow> nat" where
  "attempts_left (Num q) attempt = nat \<lceil>q\<rceil> - attempt"
| "attempts_left NaN attempt = 0"

function request_loop ::
  "RequiredConfig \<Rightarrow> (nat \<Rightarrow> fetch_outcome) \<Rightarrow> string \<Rightarrow> string \<Rightarrow> RequestInit \<Rightarrow>
     nat \<Rightarrow> jsval \<Rightarrow> WaitlyClient \<Rightarrow> (jsval + jsval) \<times> WaitlyClient" where
  "request_loop cfg transport requestId url options attempt lastError c =
     (if num_less (Num (of_nat attempt)) (cfg_retryAttempts cfg) then
        (case iteration cfg requestId url options attempt (transport attempt) c of
           (Returned data, c') \<Rightarrow> (Inr data, c')
         | (Thrown e, c') \<Rightarrow> (Inl e, c')
         | (Next e, c') \<Rightarrow> request_loop cfg transport requestId url options (Suc attempt) e c')
      else (Inl lastError, c))"
  by pat_completeness auto

termination
proof (relation "measure (\<lambda>(cfg, transport, requestId, url, options, attempt, lastError, c).
        attempts_left (cfg_retryAttempts cfg) attempt)")
  show "wf (measure (\<lambda>(cfg, transport, requestId, url, options, attempt, lastError, c).
        attempts_left (cfg_retryAttempts cfg) attempt))"
    by simp
next
  fix cfg :: RequiredConfig and transport :: "nat \<Rightarrow> fetch_outcome"
    and requestId url :: string and options :: RequestInit and attempt :: nat
    and lastError :: jsval and c :: WaitlyClient
  assume running: "num_less (Num (of_nat attempt)) (cfg_retryAttempts cfg)"
  have "attempts_left (cfg_retryAttempts cfg) (Suc attempt)
          < attempts_left (cfg_retryAttempts cfg) attempt"
  proof (cases "cfg_retryAttempts cfg")
    case (Num q)
    with running have "of_nat attempt < q" by simp
    also have "q \<le> of_int \<lceil>q\<rceil>" by (rule le_of_int_ceiling)
    finally have "int attempt < \<lceil>q\<rceil>" by (simp add: of_nat_less_of_int_iff)
    then show ?thesis using Num by simp
  next
    case NaN
    with running show ?thesis by simp
  qed
  then show "\<And>x xa y x1 e. ((cfg, transport, requestId, url, options, Suc attempt, e, y),
            cfg, transport, requestId, url, options, attempt, lastError, c)
         \<in> measure (\<lambda>(cfg, transport, requestId, url, options, attempt, lastError, c).
              attempts_left (cfg_retryAttempts cfg) attempt)"
    by simp
qed

declare request_loop.simps [simp del]

text \<open>
  The headers of the options object: the four standard ones, then the spread of the
  configured ones. The keys are those of a JavaScript object, compared as they are written.
\<close>

definition standard_headers :: "RequiredConfig \<Rightarrow> (string \<rightharpoonup> string)" where
  "standard_headers cfg =
     [''Content-Type'' \<mapsto> ''application/json'',
      ''X-API-Key'' \<mapsto> cfg_apiKey cfg,
      ''X-SDK-Version'' \<mapsto> ''1.0.0'',
      ''X-Waitlist-ID'' \<mapsto> cfg_waitlistId cfg]"

definition request_options :: "RequiredConfig \<Rightarrow> string \<Rightarrow> jsval \<Rightarrow> RequestInit" where
  "request_options cfg method body =
     \<lparr> opt_method = method,
       opt_headers = standard_headers cfg ++ cfg_headers cfg,
       opt_body = (if truthy body \<and> method \<noteq> ''GET'' then Some body else None) \<rparr>"

definition request_id :: "string \<Rightarrow> string \<Rightarrow> nat \<Rightarrow> string" where
  \<comment> \<open>\<open>`${method}-${endpoint}-${Date.now()}`\<close>\<close>
  "request_id method endpoint now = method @ ''-'' @ endpoint @ ''-'' @ show_nat now"

text \<open>
  \<open>request\<close>: \<open>now\<close> is the reading of \<open>Date.now()\<close>, \<open>body\<close> is \<open>JUndefined\<close> when the
  caller passes none. The result is \<open>Inr\<close> the payload the promise resolves with or \<open>Inl\<close>
  the value it rejects with.
\<close>

definition request ::
  "WaitlyClient \<Rightarrow> (nat \<Rightarrow> fetch_outcome) \<Rightarrow> nat \<Rightarrow> string \<Rightarrow> string \<Rightarrow> jsval \<Rightarrow>
     (jsval + jsval) \<times> WaitlyClient" where
  "request c transport now method endpoint body =
     (let cfg = config c;
          url = cfg_apiUrl cfg @ endpoint;
          requestId = request_id method endpoint now;
          c1 = c\<lparr> abortControllers := AList.update requestId NewAbortController (abortControllers c),
                  trace := trace c @ [SetTimeout (cfg_timeout cfg)] \<rparr>
      in request_loop cfg transport requestId url (request_options cfg method body)
           0 JUndefined c1)"

section \<open>The error normalizer\<close>

text \<open>
  A \<open>WaitlyError\<close> is built as an object literal; \<open>details\<close> is \<open>None\<close> where the literal
  has no such key. \<open>message\<close> and \<open>statusCode\<close> take whatever the raw error carries, so
  they are JavaScript values.
\<close>

record WaitlyError =
  code :: string
  message :: jsval
  details :: "jsval option"
  statusCode :: jsval

definition read_prop :: "jsval \<Rightarrow> string \<Rightarrow> jsval" where
  \<comment> \<open>a property of a value already known to be readable\<close>
  "read_prop e k = (case get_prop e k of Inr v \<Rightarrow> v | Inl _ \<Rightarrow> JUndefined)"

text \<open>
  \<open>handleError\<close>: the first read, \<open>error.statusCode\<close>, throws a TypeError when the raw
  error is \<open>undefined\<close> or \<open>null\<close> (\<open>Inl\<close>); \<open>===\<close> compares with the number and the
  string without conversion.
\<close>

definition handleError :: "jsval \<Rightarrow> jsval + WaitlyError" where
  "handleError error =
     (case get_prop error ''statusCode'' of
        Inl te \<Rightarrow> Inl te
      | Inr sc \<Rightarrow> Inr (
          if sc = JNum (Num 400) then
            \<lparr> code = ''VALIDATION_ERROR'',
              message = js_or (read_prop error ''message'') (JStr ''Invalid request data''),
              details = Some (read_prop error ''details''),
              statusCode = JNum (Num 400) \<rparr>
          else if sc = JNum (Num 401) then
            \<lparr> code = ''UNAUTHORIZED'',
              message = JStr ''Invalid API key'',
              details = None,
              statusCode = JNum (Num 401) \<rparr>
          else if sc = JNum (Num 404) then
            \<lparr> code = ''NOT_FOUND'',
              message = JStr ''Waitlist not found'',
              details = None,
              statusCode = JNum (Num 404) \<rparr>
          else if sc = JNum (Num 409) then
            \<lparr> code = ''DUPLICATE_ENTRY'',
              message = js_or (read_prop error ''message'') (JStr ''Email already registered''),
              details = None,
              statusCode = JNum (Num 409) \<rparr>
          else if sc = JNum (Num 429) then
            \<lparr> code = ''RATE_LIMIT'',
              message = JStr ''Too many requests'',
              details = None,
              statusCode = JNum (Num 429) \<rparr>
          else if read_prop error ''message'' = JStr ''Request timeout'' then
            \<lparr> code = ''TIMEOUT'',
              message = JStr ''Request timeout'',
              details = None,
              statusCode = JNum (Num 0) \<rparr>
          else
            \<lparr> code = ''UNKNOWN_ERROR'',
              message = js_or (read_prop error ''message'') (JStr ''An unexpected error occurred''),
              details = Some error,
              statusCode = js_or sc (JNum (Num 0)) \<rparr>))"

section \<open>The public operations\<close>

text \<open>
  A public operation rejects with a JavaScript value (the \<open>Error\<close> of a local check, or
  the TypeError that \<open>handleError\<close> itself throws) or with a \<open>WaitlyError\<close>.
\<close>

datatype rejection = JsError jsval | Waitly WaitlyError

definition rethrow :: "jsval \<Rightarrow> rejection" where
  \<comment> \<open>\<open>throw this.handleError(error)\<close>\<close>
  "rethrow error = (case handleError error of Inl te \<Rightarrow> JsError te | Inr w \<Rightarrow> Waitly w)"

record WaitlyEntry =
  email :: string
  referredByCode :: jsval
  utm :: jsval
  metadata :: jsval

definition createWaitlyEntry ::
  "WaitlyClient \<Rightarrow> (nat \<Rightarrow> fetch_outcome) \<Rightarrow> nat \<Rightarrow> WaitlyEntry \<Rightarrow>
     (rejection + jsval) \<times> WaitlyClient" where
  "createWaitlyEntry c transport now entry =
     (if email entry = [] then (Inl (JsError (js_error ''Email is required'')), c)
      else if \<not> isValidEmail (email entry)
        then (Inl (JsError (js_error ''Invalid email format'')), c)
      else
        (let endpoint = ''/api/waitlists/'' @ cfg_waitlistId (config c) @ ''/entries''
         in case request c transport now ''POST'' endpoint
                   (JObj [(''email'', JStr (trim (toLowerCase (email entry)))),
                          (''referredByCode'', referredByCode entry),
                          (''utm'', utm entry),
                          (''metadata'', metadata entry)]) of
              (Inr response, c') \<Rightarrow> (Inr response, c')
            | (Inl error, c') \<Rightarrow> (Inl (rethrow error), c')))"

text \<open>
  \<open>'totalEntries' in response\<close> throws a TypeError on a value that is not an object; an
  array is an object without that key.
\<close>

fun has_key :: "string \<Rightarrow> jsval \<Rightarrow> jsval + bool" where
  "has_key k (JObj ps) = Inr (k \<in> fst ` set ps)"
| "has_key k (JArr vs) = Inr False"
| "has_key k v = Inl (type_error (''Cannot use the in operator to search for '' @ k))"

definition getWaitlyEntriesCount ::
  "WaitlyClient \<Rightarrow> (nat \<Rightarrow> fetch_outcome) \<Rightarrow> nat \<Rightarrow> (rejection + jsval) \<times> WaitlyClient" where
  "getWaitlyEntriesCount c transport now =
     (let endpoint = ''/api/waitlists/'' @ cfg_waitlistId (config c) @ ''/count''
      in case request c transport now ''GET'' endpoint JUndefined of
           (Inr response, c') \<Rightarrow>
             (case has_key ''totalEntries'' response of
                Inl te \<Rightarrow> (Inl (rethrow te), c')
              | Inr has \<Rightarrow>
                  (Inr (if has then read_prop response ''totalEntries'' else read_prop response ''count''), c'))
         | (Inl error, c') \<Rightarrow> (Inl (rethrow error), c'))"

definition checkEmailExists ::
  "WaitlyClient \<Rightarrow> (nat \<Rightarrow> fetch_outcome) \<Rightarrow> nat \<Rightarrow> string \<Rightarrow>
     (rejection + jsval) \<times> WaitlyClient" where
  "checkEmailExists c transport now email_arg =
     (if \<not> isValidEmail email_arg then (Inl (JsError (js_error ''Invalid email format'')), c)
      else
        (let endpoint = ''/api/waitlists/'' @ cfg_waitlistId (config c) @ ''/check''
         in case request c transport now ''POST'' endpoint
                   (JObj [(''email'', JStr (trim (toLowerCase email_arg)))]) of
              (Inr response, c') \<Rightarrow>
                (case get_prop response ''exists'' of
                   Inl te \<Rightarrow> (Inl (rethrow te), c')
                 | Inr v \<Rightarrow> (Inr v, c'))
            | (Inl error, c') \<Rightarrow> (Inl (rethrow error), c')))"

definition cancelAllRequests :: "WaitlyClient \<Rightarrow> WaitlyClient" where
  "cancelAllRequests c =
     c\<lparr> abortControllers := [],
        trace := trace c @ map (\<lambda>(requestId, controller). Abort requestId) (abortControllers c) \<rparr>"

section \<open>Notions used in the statements\<close>

text \<open>A required string that is absent or empty.\<close>

fun missing :: "string option \<Rightarrow> bool" where
  "missing None = True"
| "missing (Some s) = (s = [])"

text \<open>A number that is an integer.\<close>

definition integral :: "rat \<Rightarrow> bool" where
  "integral q = (of_int \<lfloor>q\<rfloor> = q)"

text \<open>
  The language of a regular expression, against which the derivative matcher is checked,
  and the three ways in which an email is malformed: it has a whitespace character, it
  has no \<open>@\<close>, or the part after its first \<open>@\<close> has no dot.
\<close>

inductive_set lang_star :: "string set \<Rightarrow> string set" for A :: "string set" where
  nil: "[] \<in> lang_star A"
| app: "u \<in> A \<Longrightarrow> v \<in> lang_star A \<Longrightarrow> u @ v \<in> lang_star A"

fun lang :: "regex \<Rightarrow> string set" where
  "lang Nothing = {}"
| "lang Eps = {[]}"
| "lang (Cls p) = {[c] |c. p c}"
| "lang (Alt r s) = lang r \<union> lang s"
| "lang (Seq r s) = {u @ v |u v. u \<in> lang r \<and> v \<in> lang s}"
| "lang (Star r) = lang_star (lang r)"

definition domain_part :: "string \<Rightarrow> string" where
  "domain_part s = tl (dropWhile (\<lambda>c. c \<noteq> CHR ''@'') s)"

definition malformed :: "string \<Rightarrow> bool" where
  "malformed s =
     ((\<exists>c \<in> set s. is_space c) \<or> CHR ''@'' \<notin> set s \<or> CHR ''.'' \<notin> set (domain_part s))"

text \<open>The client that the constructor builds from a waitlist id and an API key alone.\<close>

definition demo_config :: WaitlyConfig where
  "demo_config =
     \<lparr> waitlistId = Some ''wl_1'', apiKey = Some ''key_1'', apiUrl = None, timeout = None,
       retryAttempts = None, headers = None \<rparr>"

definition demo_client :: WaitlyClient where
  "demo_client =
     \<lparr> config = \<lparr> cfg_waitlistId = ''wl_1'', cfg_apiKey = ''key_1'',
                  cfg_apiUrl = ''https://www.gowaitly.com'', cfg_timeout = Num 10000,
                  cfg_retryAttempts = Num 3, cfg_headers = Map.empty \<rparr>,
       abortControllers = [], trace = [] \<rparr>"

definition demo_entry :: "string \<Rightarrow> WaitlyEntry" where
  "demo_entry e =
     \<lparr> email = e, referredByCode = JUndefined, utm = JUndefined, metadata = JUndefined \<rparr>"

text \<open>
  The failures the retry policy is about. A network error is a value that \<open>fetch\<close>
  rejects with, that is not an abort and carries no status code; a retried failure is a
  response with a status of 500 or more, or a network error. \<open>failure_of\<close> is the error
  the source records for it.
\<close>

definition network_error :: "jsval \<Rightarrow> bool" where
  "network_error e =
     (case get_prop e ''name'' of
        Inl _ \<Rightarrow> False
      | Inr n \<Rightarrow> n \<noteq> JStr ''AbortError'' \<and> \<not> truthy (read_prop e ''statusCode''))"

fun retried_failure :: "fetch_outcome \<Rightarrow> bool" where
  "retried_failure (Responds r) = (500 \<le> status r)"
| "retried_failure (Rejects e) = network_error e"

fun failure_of :: "fetch_outcome \<Rightarrow> jsval" where
  "failure_of (Responds r) = with_status r"
| "failure_of (Rejects e) = e"

text \<open>
  The value under the key \<open>k\<close> of the \<open>headers\<close> object that \<open>request\<close> passes to
  \<open>fetch\<close>, when the standard headers give that key the value \<open>v\<close>: the value the
  configured extra headers have under the same key, else \<open>v\<close>. Keys are those of a
  JavaScript object and are compared as written; what \<open>fetch\<close> makes of two keys that
  differ only in case is outside the source.
\<close>

definition merged_header :: "string \<Rightarrow> RequiredConfig \<Rightarrow> string \<Rightarrow> string" where
  "merged_header k cfg v = (case cfg_headers cfg k of None \<Rightarrow> v | Some x \<Rightarrow> x)"

text \<open>
  The status codes that the normalizer names; what makes a raw error's message indicate a
  timeout, as the source tests it; and a \<open>statusCode\<close> as its type \<open>statusCode?: number\<close>
  has it when it is present: a number (\<open>NaN\<close>, which equals nothing, is left out).
\<close>

definition named_status :: "jsval \<Rightarrow> bool" where
  "named_status sc =
     (sc = JNum (Num 400) \<or> sc = JNum (Num 401) \<or> sc = JNum (Num 404) \<or>
      sc = JNum (Num 409) \<or> sc = JNum (Num 429))"

definition indicates_timeout :: "jsval \<Rightarrow> bool" where
  \<comment> \<open>\<open>error.message === 'Request timeout'\<close>\<close>
  "indicates_timeout error = (read_prop error ''message'' = JStr ''Request timeout'')"


text \<open>
  Transports for the examples. \<open>json_response\<close> is a response of the Fetch standard,
  whose body can be read once: a second \<open>json()\<close> rejects with a TypeError.
  \<open>replayable_response\<close> is a test double whose \<open>json()\<close> answers again.
\<close>

definition json_response :: "nat \<Rightarrow> string \<Rightarrow> jsval \<Rightarrow> Response" where
  "json_response st text b =
     \<lparr> status = st, statusText = text, json_first = Inr b,
       json_second = Inl (type_error ''Body is unusable'') \<rparr>"

definition replayable_response :: "nat \<Rightarrow> string \<Rightarrow> jsval \<Rightarrow> Response" where
  "replayable_response st text b =
     \<lparr> status = st, statusText = text, json_first = Inr b, json_second = Inr b \<rparr>"

definition always_count :: "nat \<Rightarrow> fetch_outcome" where
  "always_count attempt = Responds (json_response 200 ''OK'' (JObj [(''count'', JNum (Num 7))]))"

definition always_404 :: "nat \<Rightarrow> fetch_outcome" where
  "always_404 attempt =
     Responds (json_response 404 ''Not Found'' (JObj [(''message'', JStr ''no such waitlist'')]))"

definition once_404 :: "nat \<Rightarrow> fetch_outcome" where
  "once_404 attempt =
     (if attempt = 0
      then Responds (json_response 404 ''Not Found'' (JObj [(''message'', JStr ''no such waitlist'')]))
      else Responds (json_response 200 ''OK'' (JObj [(''count'', JNum (Num 7))])))"

definition always_500 :: "nat \<Rightarrow> fetch_outcome" where
  "always_500 attempt =
     Responds (json_response 500 ''Internal Server Error'' (JObj [(''message'', JStr ''boom'')]))"

definition always_500_replayable :: "nat \<Rightarrow> fetch_outcome" where
  "always_500_replayable attempt =
     Responds (replayable_response 500 ''Internal Server Error'' (JObj [(''message'', JStr ''boom'')]))"

definition always_offline :: "nat \<Rightarrow> fetch_outcome" where
  "always_offline attempt = Rejects (type_error ''Failed to fetch'')"

definition abort_error :: jsval where
  "abort_error =
     JObj [(''name'', JStr ''AbortError''), (''message'', JStr ''This operation was aborted'')]"

definition always_aborted :: "nat \<Rightarrow> fetch_outcome" where
  "always_aborted attempt = Rejects abort_error"

definition override_client :: WaitlyClient where
  "override_client =
     demo_client \<lparr> config := (config demo_client) \<lparr> cfg_headers := [''X-API-Key'' \<mapsto> ''other''] \<rparr> \<rparr>"

definition negative_client :: WaitlyClient where
  "negative_client =
     demo_client \<lparr> config := (config demo_client) \<lparr> cfg_retryAttempts := Num (- 1) \<rparr> \<rparr>"

section \<open>Configuration resolution\<close>

lemma constructor_demo: "constructor demo_config = Inr demo_client"
  by (simp add: constructor_def demo_config_def demo_client_def)

text \<open>
  Claim C8. Construction fails with the error "waitlistId is required" when the waitlist
  id is absent or empty, and with "apiKey is required" when the waitlist id is there and
  the API key is absent or empty. Otherwise it gives a client that has called nothing
  (its trace is empty, as is its map of controllers), with the given waitlist id and API
  key, and with the default for each absent field: the URL
  \<open>https://www.gowaitly.com\<close>, a timeout of 10000 ms, 3 attempts and no extra header.
\<close>

theorem constructor_checks_and_defaults:
  "(missing (waitlistId cfg) \<longrightarrow>
      constructor cfg = Inl (js_error ''waitlistId is required'')) \<and>
   (\<not> missing (waitlistId cfg) \<and> missing (apiKey cfg) \<longrightarrow>
      constructor cfg = Inl (js_error ''apiKey is required'')) \<and>
   (\<not> missing (waitlistId cfg) \<and> \<not> missing (apiKey cfg) \<longrightarrow>
      (\<exists>c. constructor cfg = Inr c \<and> trace c = [] \<and> abortControllers c = [] \<and>
           Some (cfg_waitlistId (config c)) = waitlistId cfg \<and>
           Some (cfg_apiKey (config c)) = apiKey cfg \<and>
           (apiUrl cfg = None \<longrightarrow> cfg_apiUrl (config c) = ''https://www.gowaitly.com'') \<and>
           (timeout cfg = None \<longrightarrow> cfg_timeout (config c) = Num 10000) \<and>
           (retryAttempts cfg = None \<longrightarrow> cfg_retryAttempts (config c) = Num 3) \<and>
           (headers cfg = None \<longrightarrow> cfg_headers (config c) = Map.empty)))"
  by (cases "waitlistId cfg"; cases "apiKey cfg") (auto simp: constructor_def)

theorem constructor_checks_and_defaults_witness:
  "constructor (demo_config \<lparr> waitlistId := None \<rparr>) = Inl (js_error ''waitlistId is required'') \<and>
   constructor (demo_config \<lparr> apiKey := Some [] \<rparr>) = Inl (js_error ''apiKey is required'') \<and>
   constructor demo_config = Inr demo_client"
  using constructor_checks_and_defaults [of "demo_config \<lparr> waitlistId := None \<rparr>"]
    constructor_checks_and_defaults [of "demo_config \<lparr> apiKey := Some [] \<rparr>"]
    constructor_checks_and_defaults [of demo_config]
  by (simp add: constructor_def demo_config_def demo_client_def)

text \<open>
  Claim C10. For a configuration that the constructor accepts: a \<open>retryAttempts\<close> of 0 is
  replaced by 3, a \<open>timeout\<close> of 0 by 10000 and an empty \<open>apiUrl\<close> by the default URL,
  while a \<open>retryAttempts\<close> that is negative or not an integer is kept as it is given.
\<close>

theorem falsy_fields_take_defaults:
  assumes "constructor cfg = Inr c"
  shows "(retryAttempts cfg = Some (Num 0) \<longrightarrow> cfg_retryAttempts (config c) = Num 3) \<and>
         (timeout cfg = Some (Num 0) \<longrightarrow> cfg_timeout (config c) = Num 10000) \<and>
         (apiUrl cfg = Some [] \<longrightarrow> cfg_apiUrl (config c) = ''https://www.gowaitly.com'') \<and>
         (\<forall>q. retryAttempts cfg = Some (Num q) \<and> (q < 0 \<or> \<not> integral q) \<longrightarrow>
              cfg_retryAttempts (config c) = Num q)"
  using assms
  by (auto simp: constructor_def integral_def split: option.splits if_splits)

theorem falsy_fields_take_defaults_witness:
  "constructor (demo_config \<lparr> apiUrl := Some [], timeout := Some (Num 0),
        retryAttempts := Some (Num 0) \<rparr>) = Inr demo_client \<and>
   constructor (demo_config \<lparr> retryAttempts := Some (Num (- 1)) \<rparr>)
     = Inr (demo_client \<lparr> config := (config demo_client) \<lparr> cfg_retryAttempts := Num (- 1) \<rparr> \<rparr>) \<and>
   \<not> integral (5 / 2) \<and>
   constructor (demo_config \<lparr> retryAttempts := Some (Num (5 / 2)) \<rparr>)
     = Inr (demo_client \<lparr> config := (config demo_client) \<lparr> cfg_retryAttempts := Num (5 / 2) \<rparr> \<rparr>)"
proof -
  have half: "\<not> integral (5 / 2)"
  proof -
    have "\<lfloor>5 / 2 :: rat\<rfloor> = 2" by (simp add: floor_eq_iff)
    then show ?thesis by (simp add: integral_def)
  qed
  have zero: "constructor (demo_config \<lparr> apiUrl := Some [], timeout := Some (Num 0),
        retryAttempts := Some (Num 0) \<rparr>) = Inr demo_client"
    by (simp add: constructor_def demo_config_def demo_client_def)
  have neg: "constructor (demo_config \<lparr> retryAttempts := Some (Num (- 1)) \<rparr>)
     = Inr (demo_client \<lparr> config := (config demo_client) \<lparr> cfg_retryAttempts := Num (- 1) \<rparr> \<rparr>)"
    by (simp add: constructor_def demo_config_def demo_client_def)
  have frac: "constructor (demo_config \<lparr> retryAttempts := Some (Num (5 / 2)) \<rparr>)
     = Inr (demo_client \<lparr> config := (config demo_client) \<lparr> cfg_retryAttempts := Num (5 / 2) \<rparr> \<rparr>)"
    by (simp add: constructor_def demo_config_def demo_client_def)
  from falsy_fields_take_defaults [OF zero] falsy_fields_take_defaults [OF neg]
    falsy_fields_take_defaults [OF frac] half zero neg frac
  show ?thesis by simp
qed

section \<open>Email validation before the network\<close>

text \<open>The derivative matcher accepts only strings of the expression's language.\<close>

lemma nullable_sound: "nullable r \<Longrightarrow> [] \<in> lang r"
  by (induction r) (auto intro: lang_star.nil)

lemma lang_SeqI: "u \<in> lang r \<Longrightarrow> v \<in> lang s \<Longrightarrow> u @ v \<in> lang (Seq r s)"
  by auto

lemma lang_SeqE:
  assumes "w \<in> lang (Seq r s)"
  obtains u v where "w = u @ v" "u \<in> lang r" "v \<in> lang s"
  using assms by auto

lemma lang_ClsE:
  assumes "w \<in> lang (Cls p)"
  obtains c where "w = [c]" "p c"
  using assms by auto

lemma deriv_sound: "w \<in> lang (deriv c r) \<Longrightarrow> c # w \<in> lang r"
proof (induction r arbitrary: w)
  case Nothing
  then show ?case by simp
next
  case Eps
  then show ?case by simp
next
  case (Cls p)
  then show ?case by (cases "p c") simp_all
next
  case (Alt r s)
  from Alt.prems have "w \<in> lang (deriv c r) \<or> w \<in> lang (deriv c s)" by simp
  then show ?case using Alt.IH by auto
next
  case (Seq r s)
  have left: "c # w \<in> lang (Seq r s)" if "w \<in> lang (Seq (deriv c r) s)"
  proof -
    from that obtain u v where w: "w = u @ v" and u: "u \<in> lang (deriv c r)" and v: "v \<in> lang s"
      by (rule lang_SeqE)
    from u have "c # u \<in> lang r" by (rule Seq.IH(1))
    then have "(c # u) @ v \<in> lang (Seq r s)" using v by (rule lang_SeqI)
    then show ?thesis by (simp only: w append_Cons)
  qed
  show ?case
  proof (cases "nullable r")
    case True
    with Seq.prems have "w \<in> lang (Seq (deriv c r) s) \<or> w \<in> lang (deriv c s)"
      by (simp del: lang.simps(5))
    then show ?thesis
    proof
      assume "w \<in> lang (Seq (deriv c r) s)"
      then show ?thesis by (rule left)
    next
      assume "w \<in> lang (deriv c s)"
      then have "c # w \<in> lang s" by (rule Seq.IH(2))
      moreover have "[] \<in> lang r" using True by (rule nullable_sound)
      ultimately have "[] @ (c # w) \<in> lang (Seq r s)" by (intro lang_SeqI)
      then show ?thesis by (simp only: append_Nil)
    qed
  next
    case False
    with Seq.prems have "w \<in> lang (Seq (deriv c r) s)" by (simp del: lang.simps(5))
    then show ?thesis by (rule left)
  qed
next
  case (Star r)
  from Star.prems have "w \<in> lang (Seq (deriv c r) (Star r))" by (simp del: lang.simps)
  then obtain u v where w: "w = u @ v" and u: "u \<in> lang (deriv c r)" and v: "v \<in> lang (Star r)"
    by (rule lang_SeqE)
  from u have "c # u \<in> lang r" by (rule Star.IH)
  moreover from v have "v \<in> lang_star (lang r)" by simp
  ultimately have "(c # u) @ v \<in> lang_star (lang r)" by (rule lang_star.app)
  then show ?case by (simp add: w)
qed

lemma regex_test_sound: "regex_test r s \<Longrightarrow> s \<in> lang r"
  unfolding regex_test_def
  by (induction s arbitrary: r) (auto intro: nullable_sound deriv_sound)

lemma star_all:
  assumes "w \<in> lang_star A" and "\<And>u c. u \<in> A \<Longrightarrow> c \<in> set u \<Longrightarrow> p c"
  shows "\<forall>c \<in> set w. p c"
  using assms by (induction rule: lang_star.induct) auto

lemma plus_class:
  assumes "w \<in> lang (Plus (Cls p))"
  shows "w \<noteq> [] \<and> (\<forall>c \<in> set w. p c)"
proof -
  from assms obtain u v where w: "w = u @ v" and u: "u \<in> lang (Cls p)"
    and v: "v \<in> lang_star (lang (Cls p))"
    unfolding Plus_def by auto
  from u obtain c where c: "u = [c]" "p c" by auto
  have "\<forall>c \<in> set v. p c" using v by (rule star_all) auto
  with w c show ?thesis by simp
qed

lemma valid_email_shape:
  assumes "isValidEmail s"
  shows "\<exists>x y z. s = x @ CHR ''@'' # y @ CHR ''.'' # z \<and> x \<noteq> [] \<and> y \<noteq> [] \<and> z \<noteq> [] \<and>
           (\<forall>c \<in> set (x @ y @ z). not_space_at c)"
proof -
  from assms have "s \<in> lang emailRegex"
    unfolding isValidEmail_def by (rule regex_test_sound)
  then obtain x r1 where s1: "s = x @ r1" and x: "x \<in> lang (Plus (Cls not_space_at))"
    and r1: "r1 \<in> lang (Seq (Cls (\<lambda>c. c = CHR ''@''))
         (Seq (Plus (Cls not_space_at))
           (Seq (Cls (\<lambda>c. c = CHR ''.'')) (Plus (Cls not_space_at)))))"
    unfolding emailRegex_def by (rule lang_SeqE)
  from r1 obtain a r2 where s2: "r1 = a @ r2" and a: "a \<in> lang (Cls (\<lambda>c. c = CHR ''@''))"
    and r2: "r2 \<in> lang (Seq (Plus (Cls not_space_at))
           (Seq (Cls (\<lambda>c. c = CHR ''.'')) (Plus (Cls not_space_at))))"
    by (rule lang_SeqE)
  from r2 obtain y r3 where s3: "r2 = y @ r3" and y: "y \<in> lang (Plus (Cls not_space_at))"
    and r3: "r3 \<in> lang (Seq (Cls (\<lambda>c. c = CHR ''.'')) (Plus (Cls not_space_at)))"
    by (rule lang_SeqE)
  from r3 obtain d z where s4: "r3 = d @ z" and d: "d \<in> lang (Cls (\<lambda>c. c = CHR ''.''))"
    and z: "z \<in> lang (Plus (Cls not_space_at))"
    by (rule lang_SeqE)
  from a have a': "a = [CHR ''@'']" by (auto elim: lang_ClsE)
  from d have d': "d = [CHR ''.'']" by (auto elim: lang_ClsE)
  have "s = x @ CHR ''@'' # y @ CHR ''.'' # z"
    by (simp add: s1 s2 s3 s4 a' d')
  moreover have "x \<noteq> [] \<and> (\<forall>c \<in> set x. not_space_at c)" using x by (rule plus_class)
  moreover have "y \<noteq> [] \<and> (\<forall>c \<in> set y. not_space_at c)" using y by (rule plus_class)
  moreover have "z \<noteq> [] \<and> (\<forall>c \<in> set z. not_space_at c)" using z by (rule plus_class)
  ultimately show ?thesis by (intro exI [of _ x] exI [of _ y] exI [of _ z]) auto
qed

lemma valid_email_not_malformed:
  assumes "isValidEmail s"
  shows "\<not> malformed s"
proof -
  from assms obtain x y z where s: "s = x @ CHR ''@'' # y @ CHR ''.'' # z"
    and cs: "\<forall>c \<in> set (x @ y @ z). not_space_at c"
    using valid_email_shape by blast
  have at: "\<not> is_space CHR ''@''" and dot: "\<not> is_space CHR ''.''"
    by (simp_all add: is_space_def)
  from cs have x: "\<And>c. c \<in> set x \<Longrightarrow> c \<noteq> CHR ''@''" by (auto simp: not_space_at_def)
  have "dropWhile (\<lambda>c. c \<noteq> CHR ''@'') (x @ CHR ''@'' # y @ CHR ''.'' # z)
          = CHR ''@'' # y @ CHR ''.'' # z"
    using x by (subst dropWhile_append2) simp_all
  then have dom: "domain_part s = y @ CHR ''.'' # z" by (simp add: domain_part_def s)
  have spaces: "\<forall>c \<in> set s. \<not> is_space c"
    using cs at dot unfolding s by (auto simp: not_space_at_def)
  have "CHR ''@'' \<in> set s" unfolding s by simp
  with dom spaces show ?thesis by (simp add: malformed_def)
qed


text \<open>
  The matcher is also complete, so \<open>isValidEmail\<close> accepts exactly the strings
  \<open>x@y.z\<close> with \<open>x\<close>, \<open>y\<close> and \<open>z\<close> not empty and free of whitespace and \<open>@\<close>.
\<close>

lemma nullable_complete: "[] \<in> lang r \<Longrightarrow> nullable r"
proof (induction r)
  case (Star r)
  show ?case by simp
qed auto

lemma star_Cons:
  assumes "w \<in> lang_star A" and "w = c # v"
  shows "\<exists>u t. v = u @ t \<and> c # u \<in> A \<and> t \<in> lang_star A"
  using assms
proof (induction arbitrary: v rule: lang_star.induct)
  case nil
  then show ?case by simp
next
  case (app u t)
  show ?case
  proof (cases u)
    case Nil
    with app.prems have "t = c # v" by simp
    then show ?thesis by (rule app.IH)
  next
    case (Cons a u')
    with app.prems have "a = c" and "v = u' @ t" by simp_all
    with Cons app.hyps show ?thesis by blast
  qed
qed

lemma deriv_complete: "c # w \<in> lang r \<Longrightarrow> w \<in> lang (deriv c r)"
proof (induction r arbitrary: w)
  case Nothing
  then show ?case by simp
next
  case Eps
  then show ?case by simp
next
  case (Cls p)
  then show ?case by auto
next
  case (Alt r s)
  then show ?case by auto
next
  case (Seq r s)
  from Seq.prems obtain u v where split: "c # w = u @ v" and u: "u \<in> lang r" and v: "v \<in> lang s"
    by (rule lang_SeqE)
  show ?case
  proof (cases u)
    case Nil
    with split have "v = c # w" by simp
    with v have "w \<in> lang (deriv c s)" using Seq.IH(2) by blast
    moreover from Nil u have "nullable r" by (simp add: nullable_complete)
    ultimately show ?thesis by simp
  next
    case (Cons a u')
    with split have a: "a = c" and w: "w = u' @ v" by simp_all
    from u Cons a have "u' \<in> lang (deriv c r)" using Seq.IH(1) by blast
    then have "u' @ v \<in> lang (Seq (deriv c r) s)" using v by (rule lang_SeqI)
    then show ?thesis using w by (cases "nullable r") simp_all
  qed
next
  case (Star r)
  from Star.prems have "c # w \<in> lang_star (lang r)" by simp
  then obtain u t where w: "w = u @ t" and u: "c # u \<in> lang r" and t: "t \<in> lang_star (lang r)"
    using star_Cons by blast
  from u have "u \<in> lang (deriv c r)" by (rule Star.IH)
  moreover from t have "t \<in> lang (Star r)" by simp
  ultimately have "u @ t \<in> lang (Seq (deriv c r) (Star r))" by (rule lang_SeqI)
  then show ?case using w by (simp del: lang.simps)
qed

lemma regex_test_complete: "s \<in> lang r \<Longrightarrow> regex_test r s"
  unfolding regex_test_def
  by (induction s arbitrary: r) (auto intro: nullable_complete deriv_complete)

lemma star_class_mem:
  assumes "\<forall>c \<in> set w. p c"
  shows "w \<in> lang_star (lang (Cls p))"
  using assms
proof (induction w)
  case Nil
  show ?case by (rule lang_star.nil)
next
  case (Cons c w)
  then have "[c] \<in> lang (Cls p)" and "w \<in> lang_star (lang (Cls p))" by simp_all
  then have "[c] @ w \<in> lang_star (lang (Cls p))" by (rule lang_star.app)
  then show ?case by simp
qed

lemma plus_class_mem:
  assumes "w \<noteq> []" and "\<forall>c \<in> set w. p c"
  shows "w \<in> lang (Plus (Cls p))"
proof -
  from assms(1) obtain c v where w: "w = c # v" by (cases w) auto
  with assms(2) have "[c] \<in> lang (Cls p)" by simp
  moreover from w assms(2) have "\<forall>c \<in> set v. p c" by simp
  then have "v \<in> lang_star (lang (Cls p))" by (rule star_class_mem)
  then have "v \<in> lang (Star (Cls p))" by simp
  ultimately
  have "[c] @ v \<in> lang (Seq (Cls p) (Star (Cls p)))" by (rule lang_SeqI)
  then show ?thesis by (simp add: Plus_def w del: lang.simps)
qed

lemma isValidEmail_iff:
  "isValidEmail s \<longleftrightarrow>
     (\<exists>x y z. s = x @ CHR ''@'' # y @ CHR ''.'' # z \<and> x \<noteq> [] \<and> y \<noteq> [] \<and> z \<noteq> [] \<and>
        (\<forall>c \<in> set (x @ y @ z). not_space_at c))"
proof
  assume "isValidEmail s"
  then show "\<exists>x y z. s = x @ CHR ''@'' # y @ CHR ''.'' # z \<and> x \<noteq> [] \<and> y \<noteq> [] \<and> z \<noteq> [] \<and>
        (\<forall>c \<in> set (x @ y @ z). not_space_at c)"
    by (rule valid_email_shape)
next
  assume "\<exists>x y z. s = x @ CHR ''@'' # y @ CHR ''.'' # z \<and> x \<noteq> [] \<and> y \<noteq> [] \<and> z \<noteq> [] \<and>
        (\<forall>c \<in> set (x @ y @ z). not_space_at c)"
  then obtain x y z where s: "s = x @ CHR ''@'' # y @ CHR ''.'' # z"
    and ne: "x \<noteq> []" "y \<noteq> []" "z \<noteq> []"
    and cs: "\<forall>c \<in> set x. not_space_at c" "\<forall>c \<in> set y. not_space_at c" "\<forall>c \<in> set z. not_space_at c"
    by auto
  have x: "x \<in> lang (Plus (Cls not_space_at))" using ne(1) cs(1) by (rule plus_class_mem)
  have y: "y \<in> lang (Plus (Cls not_space_at))" using ne(2) cs(2) by (rule plus_class_mem)
  have z: "z \<in> lang (Plus (Cls not_space_at))" using ne(3) cs(3) by (rule plus_class_mem)
  have at: "[CHR ''@''] \<in> lang (Cls (\<lambda>c. c = CHR ''@''))" by simp
  have dot: "[CHR ''.''] \<in> lang (Cls (\<lambda>c. c = CHR ''.''))" by simp
  have "x @ [CHR ''@''] @ y @ [CHR ''.''] @ z \<in> lang emailRegex"
    unfolding emailRegex_def
    by (intro lang_SeqI x y z at dot)
  then have "s \<in> lang emailRegex" by (simp add: s)
  then show "isValidEmail s" unfolding isValidEmail_def by (rule regex_test_complete)
qed

text \<open>
  Claim C7. For a malformed email, creating an entry and checking an email both fail with
  a local \<open>Error\<close> and leave the client as it was: no controller is registered, no timer
  is armed and \<open>fetch\<close> is not called, whatever the transport would answer.
\<close>

theorem malformed_email_rejected_locally:
  assumes "malformed (email entry)"
  shows "createWaitlyEntry c transport now entry =
           (Inl (JsError (js_error
              (if email entry = [] then ''Email is required'' else ''Invalid email format''))), c) \<and>
         checkEmailExists c transport now (email entry) =
           (Inl (JsError (js_error ''Invalid email format'')), c)"
proof -
  from assms have "\<not> isValidEmail (email entry)"
    using valid_email_not_malformed by blast
  then show ?thesis by (simp add: createWaitlyEntry_def checkEmailExists_def)
qed

theorem malformed_email_rejected_locally_witness:
  "malformed ''a b@c.de'' \<and> malformed ''ab.cd'' \<and> malformed ''a@bcd'' \<and>
   createWaitlyEntry demo_client (\<lambda>_. Rejects JNull) 0 (demo_entry ''a b@c.de'') =
     (Inl (JsError (js_error ''Invalid email format'')), demo_client) \<and>
   createWaitlyEntry demo_client (\<lambda>_. Rejects JNull) 0 (demo_entry ''ab.cd'') =
     (Inl (JsError (js_error ''Invalid email format'')), demo_client) \<and>
   checkEmailExists demo_client (\<lambda>_. Rejects JNull) 0 ''a@bcd'' =
     (Inl (JsError (js_error ''Invalid email format'')), demo_client)"
proof -
  have m1: "malformed (email (demo_entry ''a b@c.de''))"
    by (simp add: malformed_def demo_entry_def is_space_def)
  have m2: "malformed (email (demo_entry ''ab.cd''))"
    by (simp add: malformed_def demo_entry_def)
  have m3: "malformed (email (demo_entry ''a@bcd''))"
    by (simp add: malformed_def demo_entry_def domain_part_def)
  from malformed_email_rejected_locally [OF m1, of demo_client "\<lambda>_. Rejects JNull" 0]
    malformed_email_rejected_locally [OF m2, of demo_client "\<lambda>_. Rejects JNull" 0]
    malformed_email_rejected_locally [OF m3, of demo_client "\<lambda>_. Rejects JNull" 0]
    m1 m2 m3
  show ?thesis by (simp add: demo_entry_def)
qed

section \<open>What a request does to the client\<close>

text \<open>
  Every pass through the loop body calls \<open>fetch\<close> once, with the options built before
  the loop, and deletes the request's controller; nothing else touches the registry.
\<close>

lemma fetch_options_append: "fetch_options (xs @ ys) = fetch_options xs @ fetch_options ys"
  by (induction xs rule: fetch_options.induct) simp_all

lemma catch_block_effect:
  "\<exists>rest. abortControllers (snd (catch_block cfg rid attempt e c)) = AList.delete rid (abortControllers c) \<and>
     config (snd (catch_block cfg rid attempt e c)) = config c \<and>
     trace (snd (catch_block cfg rid attempt e c)) = trace c @ rest \<and> fetch_options rest = []"
  by (auto simp: catch_block_def settle_def sleep_def Let_def split: sum.splits)

lemma return_json_effect:
  "\<exists>rest. (abortControllers (snd (return_json cfg rid attempt rd c)) = abortControllers c \<or>
            abortControllers (snd (return_json cfg rid attempt rd c)) = AList.delete rid (abortControllers c)) \<and>
     config (snd (return_json cfg rid attempt rd c)) = config c \<and>
     trace (snd (return_json cfg rid attempt rd c)) = trace c @ rest \<and> fetch_options rest = []"
proof (cases rd)
  case (Inl e)
  with catch_block_effect [of cfg rid attempt e c] show ?thesis
    by (auto simp: return_json_def)
next
  case (Inr v)
  then show ?thesis by (simp add: return_json_def)
qed

lemma iteration_effect:
  "\<exists>rest. abortControllers (snd (iteration cfg rid url opts attempt outcome c)) =
             AList.delete rid (abortControllers c) \<and>
     config (snd (iteration cfg rid url opts attempt outcome c)) = config c \<and>
     trace (snd (iteration cfg rid url opts attempt outcome c)) = trace c @ Fetch url opts # rest \<and>
     fetch_options rest = []"
proof (cases outcome)
  case (Rejects e)
  with catch_block_effect [of cfg rid attempt e "c\<lparr> trace := trace c @ [Fetch url opts] \<rparr>"]
  show ?thesis by (auto simp: iteration_def)
next
  case (Responds r)
  let ?c2 = "settle rid (c\<lparr> trace := trace c @ [Fetch url opts] \<rparr>)"
  have c2: "abortControllers ?c2 = AList.delete rid (abortControllers c)"
    "trace ?c2 = trace c @ [Fetch url opts, ClearTimeout]" "config ?c2 = config c"
    by (simp_all add: settle_def)
  have "iteration cfg rid url opts attempt outcome c =
        catch_block cfg rid attempt (with_status r) ?c2 \<or>
      iteration cfg rid url opts attempt outcome c =
        (Next (with_status r), sleep (backoff attempt) ?c2) \<or>
      (\<exists>rd. iteration cfg rid url opts attempt outcome c =
        return_json cfg rid attempt rd ?c2)"
    unfolding iteration_def Let_def Responds fetch_outcome.case
    by (cases "ok r"; cases "400 \<le> status r \<and> status r < 500"; cases "attempts_remain cfg attempt")
       (simp_all, blast+)
  then consider (client) "iteration cfg rid url opts attempt outcome c =
        catch_block cfg rid attempt (with_status r) ?c2"
    | (retry) "iteration cfg rid url opts attempt outcome c =
        (Next (with_status r), sleep (backoff attempt) ?c2)"
    | (read) rd where "iteration cfg rid url opts attempt outcome c =
        return_json cfg rid attempt rd ?c2"
    by blast
  then show ?thesis
  proof cases
    case client
    with catch_block_effect [of cfg rid attempt "with_status r" ?c2] c2
    show ?thesis by (auto simp: AList.delete_idem)
  next
    case retry
    with c2 show ?thesis by (simp add: sleep_def)
  next
    case read
    with return_json_effect [of cfg rid attempt rd ?c2] c2
    show ?thesis by (auto simp: AList.delete_idem)
  qed
qed

lemma request_loop_effect:
  "\<exists>rest. trace (snd (request_loop cfg transport rid url opts attempt lastError c)) = trace c @ rest \<and>
     set (fetch_options rest) \<subseteq> {opts} \<and>
     config (snd (request_loop cfg transport rid url opts attempt lastError c)) = config c \<and>
     abortControllers (snd (request_loop cfg transport rid url opts attempt lastError c)) =
       (if num_less (Num (of_nat attempt)) (cfg_retryAttempts cfg)
        then AList.delete rid (abortControllers c) else abortControllers c)"
proof (induction cfg transport rid url opts attempt lastError c rule: request_loop.induct)
  case (1 cfg transport rid url opts attempt lastError c)
  show ?case
  proof (cases "num_less (Num (of_nat attempt)) (cfg_retryAttempts cfg)")
    case False
    then show ?thesis by (subst (1 2 3) request_loop.simps) simp
  next
    case True
    obtain ctl c1 where it: "iteration cfg rid url opts attempt (transport attempt) c = (ctl, c1)"
      by (cases "iteration cfg rid url opts attempt (transport attempt) c")
    from iteration_effect [of cfg rid url opts attempt "transport attempt" c] it
    obtain rest1 where c1: "abortControllers c1 = AList.delete rid (abortControllers c)"
      "config c1 = config c" "trace c1 = trace c @ Fetch url opts # rest1" "fetch_options rest1 = []"
      by auto
    show ?thesis
    proof (cases ctl)
      case (Next e)
      from "1.IH" [OF True it [symmetric] Next] 
      obtain rest where r: "trace (snd (request_loop cfg transport rid url opts (Suc attempt) e c1)) = trace c1 @ rest"
        "set (fetch_options rest) \<subseteq> {opts}"
        "config (snd (request_loop cfg transport rid url opts (Suc attempt) e c1)) = config c1"
        "abortControllers (snd (request_loop cfg transport rid url opts (Suc attempt) e c1)) =
           (if num_less (Num (of_nat (Suc attempt))) (cfg_retryAttempts cfg)
            then AList.delete rid (abortControllers c1) else abortControllers c1)"
        by blast
      have unfold: "request_loop cfg transport rid url opts attempt lastError c =
          request_loop cfg transport rid url opts (Suc attempt) e c1"
        using True it Next by (subst request_loop.simps) simp
      have "trace (snd (request_loop cfg transport rid url opts attempt lastError c)) =
          trace c @ (Fetch url opts # rest1 @ rest)"
        by (simp add: unfold r(1) c1(3))
      moreover have "set (fetch_options (Fetch url opts # rest1 @ rest)) \<subseteq> {opts}"
        using r(2) c1(4) by (simp add: fetch_options_append)
      moreover have "config (snd (request_loop cfg transport rid url opts attempt lastError c)) = config c"
        by (simp add: unfold r(3) c1(2))
      moreover have "abortControllers (snd (request_loop cfg transport rid url opts attempt lastError c)) =
          AList.delete rid (abortControllers c)"
        by (simp add: unfold r(4) c1(1) AList.delete_idem)
      ultimately show ?thesis using True
        by (intro exI [of _ "Fetch url opts # rest1 @ rest"]) simp
    next
      case (Returned v)
      then have "request_loop cfg transport rid url opts attempt lastError c = (Inr v, c1)"
        using True it by (subst request_loop.simps) simp
      moreover have "set (fetch_options (Fetch url opts # rest1)) \<subseteq> {opts}"
        using c1(4) by simp
      ultimately show ?thesis using c1 True by auto
    next
      case (Thrown v)
      then have "request_loop cfg transport rid url opts attempt lastError c = (Inl v, c1)"
        using True it by (subst request_loop.simps) simp
      moreover have "set (fetch_options (Fetch url opts # rest1)) \<subseteq> {opts}"
        using c1(4) by simp
      ultimately show ?thesis using c1 True by auto
    qed
  qed
qed

lemma request_fetches:
  "set (fetches_since c (snd (request c transport now method endpoint body)))
     \<subseteq> {request_options (config c) method body}"
proof -
  let ?c1 = "c\<lparr> abortControllers := AList.update (request_id method endpoint now) NewAbortController (abortControllers c),
                  trace := trace c @ [SetTimeout (cfg_timeout (config c))] \<rparr>"
  from request_loop_effect [of "config c" transport "request_id method endpoint now"
      "cfg_apiUrl (config c) @ endpoint" "request_options (config c) method body" 0 JUndefined ?c1]
  obtain rest where "trace (snd (request c transport now method endpoint body)) =
      trace c @ SetTimeout (cfg_timeout (config c)) # rest"
    and "set (fetch_options rest) \<subseteq> {request_options (config c) method body}"
    by (auto simp: request_def Let_def)
  then show ?thesis by (simp add: fetches_since_def)
qed

section \<open>Headers of the outgoing request\<close>

text \<open>
  Claim C2, as amended. In every call of \<open>fetch\<close> that a request makes, the \<open>headers\<close>
  object of the options has the keys \<open>X-API-Key\<close> and \<open>X-Waitlist-ID\<close>, keys being
  compared as written. Each key carries the configured value (the API key, the waitlist
  id) unless the configured extra headers define the same key, in which case it carries
  the value the extra headers give: extra headers cannot remove the two keys, but they
  can replace their values.
\<close>

theorem mandatory_headers_present:
  assumes "options \<in> set (fetches_since c (snd (request c transport now method endpoint body)))"
  shows "opt_headers options ''X-API-Key'' =
           Some (merged_header ''X-API-Key'' (config c) (cfg_apiKey (config c))) \<and>
         opt_headers options ''X-Waitlist-ID'' =
           Some (merged_header ''X-Waitlist-ID'' (config c) (cfg_waitlistId (config c)))"
proof -
  from assms request_fetches have "options = request_options (config c) method body"
    by blast
  then show ?thesis
    by (simp add: request_options_def standard_headers_def merged_header_def map_add_def
        split: option.splits)
qed

theorem mandatory_headers_present_witness:
  "request_options (config demo_client) ''GET'' JUndefined
      \<in> set (fetches_since demo_client
            (snd (request demo_client always_count 0 ''GET'' ''/x'' JUndefined))) \<and>
   opt_headers (request_options (config demo_client) ''GET'' JUndefined) ''X-API-Key'' = Some ''key_1'' \<and>
   opt_headers (request_options (config demo_client) ''GET'' JUndefined) ''X-Waitlist-ID'' = Some ''wl_1'' \<and>
   request_options (config override_client) ''GET'' JUndefined
      \<in> set (fetches_since override_client
            (snd (request override_client always_count 0 ''GET'' ''/x'' JUndefined))) \<and>
   opt_headers (request_options (config override_client) ''GET'' JUndefined) ''X-API-Key'' = Some ''other'' \<and>
   opt_headers (request_options (config override_client) ''GET'' JUndefined) ''X-Waitlist-ID'' = Some ''wl_1''"
proof -
  have run: "fetches_since demo_client
            (snd (request demo_client always_count 0 ''GET'' ''/x'' JUndefined)) =
       [request_options (config demo_client) ''GET'' JUndefined]"
    by (simp add: request_def request_loop.simps [of _ _ _ _ _ 0] iteration_def Let_def
        demo_client_def always_count_def json_response_def ok_def return_json_def settle_def
        fetches_since_def)
  then have mem: "request_options (config demo_client) ''GET'' JUndefined
      \<in> set (fetches_since demo_client
            (snd (request demo_client always_count 0 ''GET'' ''/x'' JUndefined)))"
    by simp
  have run': "fetches_since override_client
            (snd (request override_client always_count 0 ''GET'' ''/x'' JUndefined)) =
       [request_options (config override_client) ''GET'' JUndefined]"
    by (simp add: request_def request_loop.simps [of _ _ _ _ _ 0] iteration_def Let_def
        demo_client_def override_client_def always_count_def json_response_def ok_def
        return_json_def settle_def fetches_since_def)
  then have mem': "request_options (config override_client) ''GET'' JUndefined
      \<in> set (fetches_since override_client
            (snd (request override_client always_count 0 ''GET'' ''/x'' JUndefined)))"
    by simp
  from mandatory_headers_present [OF mem] mandatory_headers_present [OF mem'] mem mem'
  show ?thesis
    by (simp add: merged_header_def demo_client_def override_client_def)
qed

text \<open>
  The claim as stated fails: with the extra header \<open>X-API-Key: other\<close> the options go to
  \<open>fetch\<close> with that value under \<open>X-API-Key\<close> and not with the configured API key.
\<close>

theorem extra_header_replaces_api_key:
  "map (\<lambda>options. opt_headers options ''X-API-Key'')
      (fetches_since override_client
         (snd (request override_client always_count 0 ''GET'' ''/x'' JUndefined))) = [Some ''other''] \<and>
   cfg_apiKey (config override_client) = ''key_1''"
  by (simp add: request_def request_loop.simps [of _ _ _ _ _ 0] iteration_def Let_def
        demo_client_def override_client_def always_count_def json_response_def ok_def return_json_def settle_def
        fetches_since_def request_options_def standard_headers_def)

section \<open>Backoff\<close>

lemma remain_running:
  "attempts_remain cfg attempt \<Longrightarrow> num_less (Num (of_nat attempt)) (cfg_retryAttempts cfg)"
  by (cases "cfg_retryAttempts cfg") (simp_all add: attempts_remain_def)

lemma get_prop_name_statusCode:
  "get_prop e ''name'' = Inr n \<Longrightarrow> get_prop e ''statusCode'' = Inr (read_prop e ''statusCode'')"
  by (cases e) (simp_all add: read_prop_def)

lemma iteration_retried:
  assumes "attempts_remain cfg attempt" and "retried_failure outcome"
  shows "iteration cfg rid url opts attempt outcome c =
           (Next (failure_of outcome),
            c\<lparr> abortControllers := AList.delete rid (abortControllers c),
               trace := trace c @ [Fetch url opts, ClearTimeout, Delay (2 ^ attempt * 1000)] \<rparr>)"
proof (cases outcome)
  case (Responds r)
  with assms(2) have "500 \<le> status r" by simp
  then have "\<not> ok r" "\<not> status r < 500" by (simp_all add: ok_def)
  with Responds assms(1) show ?thesis
    by (simp add: iteration_def settle_def sleep_def backoff_def Let_def)
next
  case (Rejects e)
  with assms(2) obtain n where n: "get_prop e ''name'' = Inr n" "n \<noteq> JStr ''AbortError''"
    and sc: "\<not> truthy (read_prop e ''statusCode'')"
    by (auto simp: network_error_def split: sum.splits)
  from n(1) have "get_prop e ''statusCode'' = Inr (read_prop e ''statusCode'')"
    by (rule get_prop_name_statusCode)
  with Rejects assms(1) n sc show ?thesis
    by (simp add: iteration_def catch_block_def settle_def sleep_def backoff_def Let_def)
qed

lemma remain_next:
  "attempts_remain cfg attempt \<Longrightarrow> num_less (Num (of_nat (Suc attempt))) (cfg_retryAttempts cfg)"
  by (cases "cfg_retryAttempts cfg") (simp_all add: attempts_remain_def)

lemma request_loop_first_fetch:
  assumes "num_less (Num (of_nat attempt)) (cfg_retryAttempts cfg)"
  shows "\<exists>rest. trace (snd (request_loop cfg transport rid url opts attempt lastError c)) =
           trace c @ Fetch url opts # rest"
proof -
  obtain ctl c1 where it: "iteration cfg rid url opts attempt (transport attempt) c = (ctl, c1)"
    by (cases "iteration cfg rid url opts attempt (transport attempt) c")
  from iteration_effect [of cfg rid url opts attempt "transport attempt" c] it
  obtain rest1 where c1: "trace c1 = trace c @ Fetch url opts # rest1"
    by auto
  show ?thesis
  proof (cases ctl)
    case (Next e)
    then have "request_loop cfg transport rid url opts attempt lastError c =
        request_loop cfg transport rid url opts (Suc attempt) e c1"
      using assms it by (subst request_loop.simps) simp
    moreover from request_loop_effect [of cfg transport rid url opts "Suc attempt" e c1]
    obtain rest where "trace (snd (request_loop cfg transport rid url opts (Suc attempt) e c1)) =
        trace c1 @ rest"
      by blast
    ultimately show ?thesis using c1 by simp
  next
    case (Returned v)
    then have "request_loop cfg transport rid url opts attempt lastError c = (Inr v, c1)"
      using assms it by (subst request_loop.simps) simp
    with c1 show ?thesis by simp
  next
    case (Thrown v)
    then have "request_loop cfg transport rid url opts attempt lastError c = (Inl v, c1)"
      using assms it by (subst request_loop.simps) simp
    with c1 show ?thesis by simp
  qed
qed

text \<open>
  Claim C3. When the attempt of index \<open>attempt\<close> ends in a retried failure (a status of
  500 or more, or a network error) and attempts remain, the loop goes on with the next
  attempt after one delay of \<open>2 ^ attempt * 1000\<close> milliseconds, on either path: between
  the \<open>fetch\<close> of this attempt and the \<open>fetch\<close> of the next the client calls
  \<open>clearTimeout\<close> and waits that long, and nothing else.
\<close>

theorem backoff_doubles:
  assumes "attempts_remain cfg attempt" and "retried_failure (transport attempt)"
  shows "request_loop cfg transport rid url opts attempt lastError c =
           request_loop cfg transport rid url opts (Suc attempt) (failure_of (transport attempt))
             (c\<lparr> abortControllers := AList.delete rid (abortControllers c),
                 trace := trace c @ [Fetch url opts, ClearTimeout, Delay (2 ^ attempt * 1000)] \<rparr>) \<and>
         (\<exists>rest. trace (snd (request_loop cfg transport rid url opts attempt lastError c)) =
            trace c @ [Fetch url opts, ClearTimeout, Delay (2 ^ attempt * 1000), Fetch url opts] @ rest)"
proof -
  let ?c' = "c\<lparr> abortControllers := AList.delete rid (abortControllers c),
                 trace := trace c @ [Fetch url opts, ClearTimeout, Delay (2 ^ attempt * 1000)] \<rparr>"
  from assms(1) have "num_less (Num (of_nat attempt)) (cfg_retryAttempts cfg)"
    by (rule remain_running)
  then have step: "request_loop cfg transport rid url opts attempt lastError c =
      request_loop cfg transport rid url opts (Suc attempt) (failure_of (transport attempt)) ?c'"
    by (subst request_loop.simps) (simp add: iteration_retried [OF assms])
  from assms(1) have "num_less (Num (of_nat (Suc attempt))) (cfg_retryAttempts cfg)"
    by (rule remain_next)
  from request_loop_first_fetch [OF this, of transport rid url opts "failure_of (transport attempt)" ?c']
  obtain rest where "trace (snd (request_loop cfg transport rid url opts (Suc attempt)
        (failure_of (transport attempt)) ?c')) = trace ?c' @ Fetch url opts # rest"
    by blast
  with step have "trace (snd (request_loop cfg transport rid url opts attempt lastError c)) =
      trace c @ [Fetch url opts, ClearTimeout, Delay (2 ^ attempt * 1000), Fetch url opts] @ rest"
    by simp
  with step show ?thesis by blast
qed

theorem backoff_doubles_witness:
  "attempts_remain (config demo_client) 0 \<and> retried_failure (always_500 0) \<and>
   attempts_remain (config demo_client) 1 \<and> retried_failure (always_offline 1) \<and>
   request_loop (config demo_client) always_500 ''GET-/x-0'' ''u''
       (request_options (config demo_client) ''GET'' JUndefined) 0 JUndefined demo_client =
     request_loop (config demo_client) always_500 ''GET-/x-0'' ''u''
       (request_options (config demo_client) ''GET'' JUndefined) 1
       (JObj [(''statusCode'', JNum (Num 500)), (''message'', JStr ''boom'')])
       (demo_client \<lparr> trace :=
          [Fetch ''u'' (request_options (config demo_client) ''GET'' JUndefined),
           ClearTimeout, Delay 1000] \<rparr>) \<and>
   request_loop (config demo_client) always_offline ''GET-/x-0'' ''u''
       (request_options (config demo_client) ''GET'' JUndefined) 1 JUndefined demo_client =
     request_loop (config demo_client) always_offline ''GET-/x-0'' ''u''
       (request_options (config demo_client) ''GET'' JUndefined) 2
       (type_error ''Failed to fetch'')
       (demo_client \<lparr> trace :=
          [Fetch ''u'' (request_options (config demo_client) ''GET'' JUndefined),
           ClearTimeout, Delay 2000] \<rparr>)"
proof -
  have r0: "attempts_remain (config demo_client) 0" and r1: "attempts_remain (config demo_client) 1"
    by (simp_all add: attempts_remain_def demo_client_def)
  have f0: "retried_failure (always_500 0)"
    by (simp add: always_500_def json_response_def)
  have g1: "retried_failure (always_offline 1)"
    by (simp add: always_offline_def network_error_def type_error_def read_prop_def)
  have s: "\<And>n. failure_of (always_500 n) =
      JObj [(''statusCode'', JNum (Num 500)), (''message'', JStr ''boom'')]"
    by (simp add: always_500_def json_response_def with_status_def error_body_def spread_def)
  have t: "\<And>n. failure_of (always_offline n) = type_error ''Failed to fetch''"
    by (simp add: always_offline_def)
  from backoff_doubles [where transport = always_500 and attempt = 0, OF r0 f0,
        of "''GET-/x-0''" "''u''" "request_options (config demo_client) ''GET'' JUndefined"
          JUndefined demo_client]
    backoff_doubles [where transport = always_offline and attempt = 1, OF r1 g1,
        of "''GET-/x-0''" "''u''" "request_options (config demo_client) ''GET'' JUndefined"
          JUndefined demo_client]
    r0 r1 f0 g1
  show ?thesis by (simp add: s t demo_client_def numeral_2_eq_2)
qed

lemma failing_request_delays:
  "delays (snd (request demo_client always_500 0 ''GET'' ''/x'' JUndefined)) = [1000, 2000] \<and>
   delays (snd (request demo_client always_offline 0 ''GET'' ''/x'' JUndefined)) = [1000, 2000]"
  by code_simp

section \<open>Timeout\<close>

lemma rethrow_timeout:
  "rethrow (js_error ''Request timeout'') =
     Waitly \<lparr> code = ''TIMEOUT'', message = JStr ''Request timeout'', details = None,
              statusCode = JNum (Num 0) \<rparr>"
  by (simp add: rethrow_def handleError_def js_error_def read_prop_def)

lemma not_valid_empty: "\<not> isValidEmail []"
  by (simp add: isValidEmail_def regex_test_def emailRegex_def Plus_def)

lemma request_abort_first:
  assumes "num_less (Num 0) (cfg_retryAttempts (config c))"
    and "transport 0 = Rejects e"
    and "get_prop e ''name'' = Inr (JStr ''AbortError'')"
  shows "request c transport now method endpoint body =
      (Inl (js_error ''Request timeout''),
       c\<lparr> abortControllers := AList.delete (request_id method endpoint now) (abortControllers c),
          trace := trace c @ [SetTimeout (cfg_timeout (config c)),
             Fetch (cfg_apiUrl (config c) @ endpoint) (request_options (config c) method body),
             ClearTimeout] \<rparr>)"
  using assms
  by (simp add: request_def Let_def request_loop.simps [of _ _ _ _ _ 0] iteration_def
      catch_block_def settle_def AList.delete_update_same)

text \<open>
  Claim C5. When the call of \<open>fetch\<close> of an attempt rejects with an \<open>AbortError\<close>, which
  is how the armed timeout reaches the request, the request rejects at once with
  \<open>Error('Request timeout')\<close>: after that \<open>fetch\<close> come only \<open>clearTimeout\<close> and the
  removal of the controller, no delay and no further attempt. The normalizer turns this
  error into \<open>{code: TIMEOUT, statusCode: 0}\<close>. The timer is cleared when the first
  \<open>fetch\<close> settles, so it can abort only the first attempt: there each of the three
  public operations rejects with the normalized timeout error after one call of \<open>fetch\<close>.
\<close>

theorem timeout_surfaces_at_once:
  assumes "num_less (Num (of_nat attempt)) (cfg_retryAttempts (config c))"
    and "transport attempt = Rejects e"
    and "get_prop e ''name'' = Inr (JStr ''AbortError'')"
  shows "request_loop (config c) transport rid url opts attempt lastError c =
           (Inl (js_error ''Request timeout''),
            c\<lparr> abortControllers := AList.delete rid (abortControllers c),
               trace := trace c @ [Fetch url opts, ClearTimeout] \<rparr>) \<and>
         rethrow (js_error ''Request timeout'') =
           Waitly \<lparr> code = ''TIMEOUT'', message = JStr ''Request timeout'', details = None,
                    statusCode = JNum (Num 0) \<rparr> \<and>
         (attempt = 0 \<longrightarrow>
            fst (getWaitlyEntriesCount c transport now) =
              Inl (Waitly \<lparr> code = ''TIMEOUT'', message = JStr ''Request timeout'', details = None,
                    statusCode = JNum (Num 0) \<rparr>) \<and>
            fetch_count (snd (getWaitlyEntriesCount c transport now)) = fetch_count c + 1 \<and>
            (isValidEmail (email entry) \<longrightarrow>
               fst (createWaitlyEntry c transport now entry) =
                 Inl (Waitly \<lparr> code = ''TIMEOUT'', message = JStr ''Request timeout'', details = None,
                    statusCode = JNum (Num 0) \<rparr>) \<and>
               fetch_count (snd (createWaitlyEntry c transport now entry)) = fetch_count c + 1 \<and>
               fst (checkEmailExists c transport now (email entry)) =
                 Inl (Waitly \<lparr> code = ''TIMEOUT'', message = JStr ''Request timeout'', details = None,
                    statusCode = JNum (Num 0) \<rparr>) \<and>
               fetch_count (snd (checkEmailExists c transport now (email entry))) = fetch_count c + 1))"
proof (intro conjI impI)
  show "request_loop (config c) transport rid url opts attempt lastError c =
           (Inl (js_error ''Request timeout''),
            c\<lparr> abortControllers := AList.delete rid (abortControllers c),
               trace := trace c @ [Fetch url opts, ClearTimeout] \<rparr>)"
    using assms
    by (subst request_loop.simps)
       (simp add: iteration_def catch_block_def settle_def Let_def)
  show "rethrow (js_error ''Request timeout'') =
           Waitly \<lparr> code = ''TIMEOUT'', message = JStr ''Request timeout'', details = None,
                    statusCode = JNum (Num 0) \<rparr>"
    by (rule rethrow_timeout)
next
  assume "attempt = 0"
  with assms have first: "num_less (Num 0) (cfg_retryAttempts (config c))" "transport 0 = Rejects e"
    by simp_all
  note req = request_abort_first [where transport = transport and c = c and e = e, OF first assms(3)]
  show "fst (getWaitlyEntriesCount c transport now) =
              Inl (Waitly \<lparr> code = ''TIMEOUT'', message = JStr ''Request timeout'', details = None,
                    statusCode = JNum (Num 0) \<rparr>)"
    by (simp add: getWaitlyEntriesCount_def Let_def req rethrow_timeout)
  show "fetch_count (snd (getWaitlyEntriesCount c transport now)) = fetch_count c + 1"
    by (simp add: getWaitlyEntriesCount_def Let_def req fetch_count_def)
  assume valid: "isValidEmail (email entry)"
  then have nonempty: "email entry \<noteq> []" using not_valid_empty by auto
  show "fst (createWaitlyEntry c transport now entry) =
                 Inl (Waitly \<lparr> code = ''TIMEOUT'', message = JStr ''Request timeout'', details = None,
                    statusCode = JNum (Num 0) \<rparr>)"
    using valid nonempty by (simp add: createWaitlyEntry_def Let_def req rethrow_timeout)
  show "fetch_count (snd (createWaitlyEntry c transport now entry)) = fetch_count c + 1"
    using valid nonempty by (simp add: createWaitlyEntry_def Let_def req fetch_count_def)
  show "fst (checkEmailExists c transport now (email entry)) =
                 Inl (Waitly \<lparr> code = ''TIMEOUT'', message = JStr ''Request timeout'', details = None,
                    statusCode = JNum (Num 0) \<rparr>)"
    using valid by (simp add: checkEmailExists_def Let_def req rethrow_timeout)
  show "fetch_count (snd (checkEmailExists c transport now (email entry))) = fetch_count c + 1"
    using valid by (simp add: checkEmailExists_def Let_def req fetch_count_def)
qed

theorem timeout_surfaces_at_once_witness:
  "num_less (Num (of_nat 0)) (cfg_retryAttempts (config demo_client)) \<and>
   always_aborted 0 = Rejects abort_error \<and>
   get_prop abort_error ''name'' = Inr (JStr ''AbortError'') \<and>
   isValidEmail (email (demo_entry ''ann@example.org'')) \<and>
   fst (createWaitlyEntry demo_client always_aborted 0 (demo_entry ''ann@example.org'')) =
     Inl (Waitly \<lparr> code = ''TIMEOUT'', message = JStr ''Request timeout'', details = None,
                   statusCode = JNum (Num 0) \<rparr>) \<and>
   fetch_count (snd (createWaitlyEntry demo_client always_aborted 0 (demo_entry ''ann@example.org''))) = 1"
proof -
  have run: "num_less (Num (of_nat 0)) (cfg_retryAttempts (config demo_client))"
    by (simp add: demo_client_def)
  have out: "always_aborted 0 = Rejects abort_error"
    by (simp add: always_aborted_def)
  have name: "get_prop abort_error ''name'' = Inr (JStr ''AbortError'')"
    by (simp add: abort_error_def)
  have valid: "isValidEmail (email (demo_entry ''ann@example.org''))"
    by (simp add: demo_entry_def isValidEmail_def regex_test_def emailRegex_def Plus_def
        not_space_at_def is_space_def)
  have none: "fetch_count demo_client = 0"
    by (simp add: fetch_count_def demo_client_def)
  from timeout_surfaces_at_once [where transport = always_aborted and c = demo_client
      and attempt = 0 and e = abort_error and entry = "demo_entry ''ann@example.org''" and now = 0,
      OF run out name] run out name valid none
  show ?thesis by simp
qed

section \<open>The normalizer's table\<close>



text \<open>
  The fallback is \<open>error.statusCode || 0\<close>: beyond the numbers and the absent status of
  the table, any truthy \<open>statusCode\<close> is passed on and any falsy one becomes 0. On
  \<open>undefined\<close> and \<open>null\<close> the normalizer itself throws.
\<close>

lemma handleError_fallback_status:
  assumes "get_prop error ''statusCode'' = Inr sc"
    and "\<not> named_status sc" and "\<not> indicates_timeout error"
  shows "\<exists>w. handleError error = Inr w \<and>
           statusCode w = (if truthy sc then sc else JNum (Num 0))"
  using assms
  by (auto simp: handleError_def named_status_def indicates_timeout_def js_or_def)

lemma handleError_unreadable:
  "(\<exists>te. handleError JUndefined = Inl te) \<and> (\<exists>te. handleError JNull = Inl te)"
  by (simp add: handleError_def)

section \<open>Client errors and exhausted retries\<close>

text \<open>
  Claim C1 says that a response with a status from 400 to 499 ends the request at once,
  after one call of \<open>fetch\<close>. In the source the error is thrown inside the \<open>try\<close> block;
  the \<open>catch\<close> block finds a status code on it and skips the delay, and the loop goes
  on. With the default three attempts and a transport that always answers 404, \<open>fetch\<close>
  is called three times, without delay, before NOT_FOUND is raised; and when the second
  answer is a success the operation succeeds.
\<close>

theorem client_error_is_retried:
  "fst (getWaitlyEntriesCount demo_client always_404 0) =
     Inl (Waitly \<lparr> code = ''NOT_FOUND'', message = JStr ''Waitlist not found'', details = None,
                   statusCode = JNum (Num 404) \<rparr>) \<and>
   fetch_count (snd (getWaitlyEntriesCount demo_client always_404 0)) = 3 \<and>
   delays (snd (getWaitlyEntriesCount demo_client always_404 0)) = [] \<and>
   fst (getWaitlyEntriesCount demo_client once_404 0) = Inr (JNum (Num 7)) \<and>
   fetch_count (snd (getWaitlyEntriesCount demo_client once_404 0)) = 2"
  by code_simp

text \<open>
  Claim C4 says that when every attempt fails with a retried error the request raises the
  error of the last attempt. When the last attempt is a response with status 500, the
  source records the error and falls through to a second \<open>response.json()\<close>. With a
  response of the Fetch standard that read rejects, and the request raises the TypeError
  of the read, which the normalizer turns into UNKNOWN_ERROR with status 0; with a
  response that can be read again the request resolves with the error body as its
  payload. The recorded error, with its status 500, is raised in neither case.
\<close>

theorem server_error_on_last_attempt_is_lost:
  "fst (request demo_client always_500 0 ''GET'' ''/api/waitlists/wl_1/count'' JUndefined) =
     Inl (type_error ''Body is unusable'') \<and>
   fetch_count (snd (request demo_client always_500 0 ''GET'' ''/api/waitlists/wl_1/count'' JUndefined)) = 3 \<and>
   failure_of (always_500 2) = JObj [(''statusCode'', JNum (Num 500)), (''message'', JStr ''boom'')] \<and>
   fst (getWaitlyEntriesCount demo_client always_500 0) =
     Inl (Waitly \<lparr> code = ''UNKNOWN_ERROR'', message = JStr ''Body is unusable'',
                   details = Some (type_error ''Body is unusable''),
                   statusCode = JNum (Num 0) \<rparr>) \<and>
   fst (request demo_client always_500_replayable 0 ''GET'' ''/api/waitlists/wl_1/count'' JUndefined) =
     Inr (JObj [(''message'', JStr ''boom'')])"
  by code_simp

text \<open>
  When the last attempt fails with a network error, that error is what the request raises.
\<close>

lemma network_error_on_last_attempt_is_raised:
  "fst (request demo_client always_offline 0 ''GET'' ''/api/waitlists/wl_1/count'' JUndefined) =
     Inl (type_error ''Failed to fetch'') \<and>
   fetch_count (snd (request demo_client always_offline 0 ''GET''
       ''/api/waitlists/wl_1/count'' JUndefined)) = 3"
  by code_simp

section \<open>The registry of abort controllers\<close>

text \<open>
  A request that makes at least one attempt leaves no controller under its id, and
  \<open>cancelAllRequests\<close> empties the registry and can be repeated.
\<close>

lemma request_removes_handle:
  assumes "num_less (Num 0) (cfg_retryAttempts (config c))"
  shows "abortControllers (snd (request c transport now method endpoint body)) =
           AList.delete (request_id method endpoint now) (abortControllers c) \<and>
         request_id method endpoint now
           \<notin> fst ` set (abortControllers (snd (request c transport now method endpoint body)))"
proof -
  let ?c1 = "c\<lparr> abortControllers := AList.update (request_id method endpoint now) NewAbortController (abortControllers c),
                  trace := trace c @ [SetTimeout (cfg_timeout (config c))] \<rparr>"
  from request_loop_effect [of "config c" transport "request_id method endpoint now"
      "cfg_apiUrl (config c) @ endpoint" "request_options (config c) method body" 0 JUndefined ?c1]
    assms
  have "abortControllers (snd (request c transport now method endpoint body)) =
      AList.delete (request_id method endpoint now) (abortControllers ?c1)"
    by (auto simp: request_def Let_def)
  then have "abortControllers (snd (request c transport now method endpoint body)) =
           AList.delete (request_id method endpoint now) (abortControllers c)"
    by (simp add: AList.delete_update_same)
  then show ?thesis by (simp add: AList.delete_notin_dom)
qed

lemma cancelAllRequests_empties:
  "abortControllers (cancelAllRequests c) = [] \<and>
   cancelAllRequests (cancelAllRequests c) = cancelAllRequests c"
  by (simp add: cancelAllRequests_def)

text \<open>
  Claim C9 says that the registry holds no controller of a settled request. The
  constructor keeps a negative \<open>retryAttempts\<close>; the loop then makes no attempt, the
  request rejects with \<open>undefined\<close>, and the controller it registered stays in the
  registry, since both deletions are inside the loop.
\<close>

theorem no_attempt_leaves_handle:
  "constructor (demo_config \<lparr> retryAttempts := Some (Num (- 1)) \<rparr>) = Inr negative_client \<and>
   fst (request negative_client always_count 0 ''GET'' ''/api/waitlists/wl_1/count'' JUndefined) =
     Inl JUndefined \<and>
   abortControllers (snd (getWaitlyEntriesCount negative_client always_count 0)) =
     [(''GET-/api/waitlists/wl_1/count-0'', NewAbortController)] \<and>
   fetch_count (snd (getWaitlyEntriesCount negative_client always_count 0)) = 0"
proof -
  have "constructor (demo_config \<lparr> retryAttempts := Some (Num (- 1)) \<rparr>) = Inr negative_client"
    by (simp add: constructor_def demo_config_def demo_client_def negative_client_def)
  moreover have "fst (request negative_client always_count 0 ''GET''
      ''/api/waitlists/wl_1/count'' JUndefined) = Inl JUndefined"
    by code_simp
  moreover have "abortControllers (snd (getWaitlyEntriesCount negative_client always_count 0)) =
     [(''GET-/api/waitlists/wl_1/count-0'', NewAbortController)]"
    by code_simp
  moreover have "fetch_count (snd (getWaitlyEntriesCount negative_client always_count 0)) = 0"
    by code_simp
  ultimately show ?thesis by simp
qed

end
